theory Spec2Isabelle
  imports Complex_Main "HOL-Library.AList"
begin

section \<open>Python values, exceptions and strings\<close>

text \<open>
  Python exceptions are values: a function that can raise returns \<open>exn + 'a\<close>, with
  \<open>Inl\<close> for the raised exception. The constructors name the exception class; the
  argument is the message. The messages of the source are Chinese f-strings; the model
  keeps only the interpolated parts.
\<close>

datatype exn =
    RuntimeError string
  | ValueError string
  | ZeroDivisionError
  | UnboundLocalError string
  | OSError string
  | FileNotFoundError string
  | SubprocessError string
  | OtherException string

fun exn_str :: "exn \<Rightarrow> string" where
  "exn_str (RuntimeError m) = m"
| "exn_str (ValueError m) = m"
| "exn_str ZeroDivisionError = ''division by zero''"
| "exn_str (UnboundLocalError m) = m"
| "exn_str (OSError m) = m"
| "exn_str (FileNotFoundError m) = m"
| "exn_str (SubprocessError m) = m"
| "exn_str (OtherException m) = m"

text \<open>
  Strings are lists of characters. \<open>str.lower\<close> is modelled on the ASCII letters
  \<open>A\<close>..\<open>Z\<close>; every other character is left as it is.
\<close>

definition lower_table :: "(char \<times> char) list" where
  "lower_table = zip ''ABCDEFGHIJKLMNOPQRSTUVWXYZ'' ''abcdefghijklmnopqrstuvwxyz''"

definition lower_char :: "char \<Rightarrow> char" where
  "lower_char c = (case map_of lower_table c of Some d \<Rightarrow> d | None \<Rightarrow> c)"

definition upper_char :: "char \<Rightarrow> char" where
  "upper_char c =
     (case map_of (map (\<lambda>(a, b). (b, a)) lower_table) c of Some d \<Rightarrow> d | None \<Rightarrow> c)"

definition lower :: "string \<Rightarrow> string" where
  "lower s = map lower_char s"

definition upper :: "string \<Rightarrow> string" where
  "upper s = map upper_char s"

text \<open>\<open>sep.join(xs)\<close>.\<close>

fun join_str :: "string \<Rightarrow> string list \<Rightarrow> string" where
  "join_str sep [] = []"
| "join_str sep [x] = x"
| "join_str sep (x # y # ys) = x @ sep @ join_str sep (y # ys)"

text \<open>\<open>s.rfind(c)\<close>: the index of the last occurrence of \<open>c\<close>, or \<open>-1\<close>.\<close>

definition rfind :: "char \<Rightarrow> string \<Rightarrow> int" where
  "rfind c s =
     (if c \<in> set s
      then int (length s) - 1 - int (length (takeWhile (\<lambda>x. x \<noteq> c) (rev s)))
      else - 1)"

text \<open>\<open>s.split(c)\<close> for a one-character separator.\<close>

fun split_on :: "char \<Rightarrow> string \<Rightarrow> string list" where
  "split_on c [] = [[]]"
| "split_on c (x # xs) =
     (if x = c then [] # split_on c xs
      else (case split_on c xs of
              [] \<Rightarrow> [[x]]
            | w # ws \<Rightarrow> (x # w) # ws))"

text \<open>\<open>sub in s\<close> for strings: \<open>sub\<close> occurs in \<open>s\<close> as a contiguous run.\<close>

fun str_contains :: "string \<Rightarrow> string \<Rightarrow> bool" where
  "str_contains sub [] = (sub = [])"
| "str_contains sub (x # xs) =
     (take (length sub) (x # xs) = sub \<or> str_contains sub xs)"

section \<open>Paths\<close>

text \<open>
  \<open>os.path\<close> and \<open>pathlib\<close> are modelled with their POSIX implementations
  (\<open>posixpath\<close>, \<open>PurePosixPath\<close>): the separator is \<open>/\<close>.

  \<open>os.path.splitext(p)\<close>: the extension starts at the last dot of the last
  component, unless that component has only dots before it.
  \<^verbatim>\<open>
    sepIndex = p.rfind(sep)
    dotIndex = p.rfind(extsep)
    if dotIndex > sepIndex:
        filenameIndex = sepIndex + 1
        while filenameIndex < dotIndex:
            if p[filenameIndex:filenameIndex+1] != extsep:
                return p[:dotIndex], p[dotIndex:]
            filenameIndex += 1
    return p, p[:0]
  \<close>
\<close>

function splitext_loop :: "string \<Rightarrow> nat \<Rightarrow> nat \<Rightarrow> string \<times> string" where
  "splitext_loop p filenameIndex dotIndex =
     (if filenameIndex < dotIndex
      then (if take 1 (drop filenameIndex p) \<noteq> ''.''
            then (take dotIndex p, drop dotIndex p)
            else splitext_loop p (filenameIndex + 1) dotIndex)
      else (p, []))"
  by pat_completeness auto
termination
  by (relation "measure (\<lambda>(p, i, d). d - i)") auto

declare splitext_loop.simps [simp del]

definition splitext :: "string \<Rightarrow> string \<times> string" where
  "splitext p =
     (let sepIndex = rfind CHR ''/'' p;
          dotIndex = rfind CHR ''.'' p
      in if dotIndex > sepIndex
         then splitext_loop p (nat (sepIndex + 1)) (nat dotIndex)
         else (p, []))"

text \<open>The last component of a path: what follows its last separator.\<close>

definition last_component :: "string \<Rightarrow> string" where
  "last_component p = rev (takeWhile (\<lambda>c. c \<noteq> CHR ''/'') (rev p))"

text \<open>
  \<open>os.path.join(a, b)\<close>:
  \<^verbatim>\<open>
    if b.startswith(sep): path = b
    elif not path or path.endswith(sep): path += b
    else: path += sep + b
  \<close>
\<close>

definition os_path_join :: "string \<Rightarrow> string \<Rightarrow> string" where
  "os_path_join a b =
     (if take 1 b = ''/'' then b
      else if a = [] \<or> last a = CHR ''/'' then a @ b
      else a @ ''/'' @ b)"

text \<open>
  \<open>pathlib.Path(p).name\<close>: the last component of the parsed path, where empty
  components and \<open>.\<close> components are dropped; empty when nothing is left.
  \<open>suffix\<close> and \<open>stem\<close> cut the name at its last dot, when that dot is neither the
  first nor the last character of the name (the definition of Python 3.8 to 3.13).
\<close>

definition path_name :: "string \<Rightarrow> string" where
  "path_name p =
     (let parts = filter (\<lambda>x. x \<noteq> [] \<and> x \<noteq> ''.'') (split_on CHR ''/'' p)
      in if parts = [] then [] else last parts)"

definition path_suffix :: "string \<Rightarrow> string" where
  "path_suffix p =
     (let name = path_name p; i = rfind CHR ''.'' name
      in if 0 < i \<and> i < int (length name) - 1 then drop (nat i) name else [])"

definition path_stem :: "string \<Rightarrow> string" where
  "path_stem p =
     (let name = path_name p; i = rfind CHR ''.'' name
      in if 0 < i \<and> i < int (length name) - 1 then take (nat i) name else name)"

text \<open>
  \<open>ntpath.basename(p)\<close>, which \<open>app.py\<close> calls on every platform: the part of
  \<open>p\<close> after its drive and after its last separator, where both \<open>/\<close> and the
  backslash separate (\<open>ntpath.splitdrive\<close> and \<open>ntpath.split\<close> of Python 3.8 to 3.10).
\<close>

definition bslash :: char where
  "bslash = CHR 0x5C"

text \<open>\<open>s.find(c, start)\<close>.\<close>

definition find_from :: "char \<Rightarrow> string \<Rightarrow> nat \<Rightarrow> int" where
  "find_from c s start =
     (let t = drop start s
      in if c \<in> set t then int start + int (length (takeWhile (\<lambda>x. x \<noteq> c) t)) else - 1)"

definition ntpath_splitdrive :: "string \<Rightarrow> string \<times> string" where
  "ntpath_splitdrive p =
     (if length p \<ge> 2 then
        (let normp = map (\<lambda>c. if c = CHR ''/'' then bslash else c) p
         in if take 2 normp = [bslash, bslash] \<and> take 1 (drop 2 normp) \<noteq> [bslash] then
              (let index = find_from bslash normp 2
               in if index = - 1 then ([], p)
                  else (let index2 = find_from bslash normp (nat index + 1)
                        in if index2 = index + 1 then ([], p)
                           else (let index2' = (if index2 = - 1 then int (length p) else index2)
                                 in (take (nat index2') p, drop (nat index2') p))))
            else if take 1 (drop 1 normp) = '':'' then (take 2 p, drop 2 p)
            else ([], p))
      else ([], p))"

definition ntpath_basename :: "string \<Rightarrow> string" where
  "ntpath_basename p =
     (let rest = snd (ntpath_splitdrive p)
      in rev (takeWhile (\<lambda>c. c \<noteq> bslash \<and> c \<noteq> CHR ''/'') (rev rest)))"

section \<open>Classification of inputs by extension\<close>

text \<open>\<open>SUPPORTED_VIDEO_FORMATS\<close> of \<open>core/utils.py\<close> and of \<open>core/engine.py\<close>.\<close>

definition SUPPORTED_VIDEO_FORMATS :: "string list" where
  "SUPPORTED_VIDEO_FORMATS =
     [''.mp4'', ''.mkv'', ''.avi'', ''.mov'', ''.wmv'', ''.flv'', ''.webm'']"

definition engine_SUPPORTED_VIDEO_FORMATS :: "string list" where
  "engine_SUPPORTED_VIDEO_FORMATS =
     [''.mp4'', ''.avi'', ''.mov'', ''.mkv'', ''.flv'', ''.wmv'', ''.webm'']"

text \<open>\<open>is_video_file\<close> and \<open>is_audio_file\<close> of \<open>core/utils.py\<close>.\<close>

definition is_video_file :: "string \<Rightarrow> bool" where
  "is_video_file file_path =
     (let ext = snd (splitext file_path) in lower ext \<in> set SUPPORTED_VIDEO_FORMATS)"

definition is_audio_file :: "string \<Rightarrow> bool" where
  "is_audio_file file_path =
     (let ext = snd (splitext file_path)
      in lower ext \<in> set [''.wav'', ''.mp3'', ''.flac'', ''.ogg'', ''.m4a''])"

text \<open>\<open>STTEngine._is_video_file\<close> of \<open>core/engine.py\<close>.\<close>

definition STTEngine_is_video_file :: "string \<Rightarrow> bool" where
  "STTEngine_is_video_file file_path =
     (let ext = lower (path_suffix file_path) in ext \<in> set engine_SUPPORTED_VIDEO_FORMATS)"

text \<open>\<open>SpeechToText.is_video_file\<close> of \<open>app.py\<close>.\<close>

definition SpeechToText_is_video_file :: "string \<Rightarrow> bool" where
  "SpeechToText_is_video_file file_path =
     (let ext = snd (splitext file_path);
          ext = lower ext;
          video_extensions = [''.mp4'', ''.avi'', ''.mov'', ''.mkv'', ''.flv'', ''.wmv'']
      in ext \<in> set video_extensions)"

section \<open>The world of a transcription call\<close>

text \<open>
  The iterable that the inference capability returns. A list can be iterated again and
  again; a generator yields its items once, then (when it carries an exception) raises
  it, and is empty from then on.
\<close>

datatype 'a iterable = PyList "'a list" | PyGen "'a list" "exn option"

fun iterate :: "'a iterable \<Rightarrow> (exn + 'a list) \<times> 'a iterable" where
  "iterate (PyList xs) = (Inr xs, PyList xs)"
| "iterate (PyGen xs None) = (Inr xs, PyGen [] None)"
| "iterate (PyGen xs (Some e)) = (Inl e, PyGen [] None)"

record segment =
  seg_text :: string
  seg_start :: real
  seg_end :: real

record info =
  info_language :: string
  info_language_probability :: real
  info_duration :: real
  info_all_language_probs :: "(string \<times> real) list option"

datatype pyval = PNone | PBool bool | PInt int | PStr string | PDict "(string \<times> pyval) list"

type_synonym kwargs = "(string \<times> pyval) list"

text \<open>
  The file system is the set of paths that exist; \<open>calls\<close> logs every invocation of
  the inference capability, with the path and the keyword arguments it was given.
\<close>

record world =
  files :: "string set"
  calls :: "(string \<times> kwargs) list"

text \<open>
  What the call does not decide: the name \<open>NamedTemporaryFile\<close> picks, the directory
  \<open>gettempdir\<close> returns, whether \<open>soundfile.write\<close> and moviepy's extraction raise
  (\<open>None\<close>: the output file is written), and the inference capability
  \<open>self.model.transcribe\<close>.
\<close>

record env =
  tmp_name :: string
  temp_dir :: string
  sf_write :: "string \<Rightarrow> exn option"
  write_audiofile :: "string \<Rightarrow> exn option"
  model_transcribe :: "string \<Rightarrow> kwargs \<Rightarrow> exn + (segment iterable \<times> info)"

section \<open>The engine object\<close>

text \<open>
  The keyword arguments of one \<open>WhisperModel(...)\<close> construction. A loaded model is
  identified with the arguments that built it.
\<close>

record load_kwargs =
  kw_model_size :: string
  kw_device :: string
  kw_compute_type :: string
  kw_download_root :: "string option"
  kw_cpu_threads :: "nat option"

text \<open>The attributes of \<open>STTEngine\<close> (\<open>core/engine.py\<close>).\<close>

record engine =
  model_size :: string
  use_gpu :: bool
  device :: "string option"
  compute_type :: "string option"
  download_root :: string
  cpu_threads :: nat
  language :: "string option"
  model :: "load_kwargs option"

section \<open>Transcription: \<open>STTEngine.transcribe\<close>\<close>

text \<open>\<open>a or b\<close> on optional strings: \<open>None\<close> and the empty string are falsy.\<close>

definition py_or :: "string option \<Rightarrow> string option \<Rightarrow> string option" where
  "py_or a b = (if a = None \<or> a = Some [] then b else a)"

definition opt_str :: "string option \<Rightarrow> pyval" where
  "opt_str a = (case a of None \<Rightarrow> PNone | Some x \<Rightarrow> PStr x)"

text \<open>\<open>d.update(kwargs)\<close>: a key that is present keeps its place, a new key goes last.\<close>

definition dict_update :: "kwargs \<Rightarrow> kwargs \<Rightarrow> kwargs" where
  "dict_update d kw = fold (\<lambda>(k, v) acc. AList.update k v acc) kw d"

text \<open>Lines 216 to 225: the default profile, then the caller's overrides.\<close>

definition transcribe_params :: "engine \<Rightarrow> string option \<Rightarrow> kwargs \<Rightarrow> kwargs" where
  "transcribe_params self lang kw =
     dict_update
       [(''beam_size'', PInt 3),
        (''language'', opt_str (py_or lang (language self))),
        (''vad_filter'', PBool True),
        (''vad_parameters'', PDict [(''min_silence_duration_ms'', PInt 500)]),
        (''condition_on_previous_text'', PBool False)]
       kw"

record details =
  d_language :: string
  d_language_probability :: real
  d_duration :: real
  d_all_languages_probs :: "(string \<times> real) list option"
  d_segments_count :: nat
  d_model_size :: string
  d_device :: "string option"
  d_compute_type :: "string option"

text \<open>
  \<open>STTEngine._extract_audio_from_video\<close>: the output path is the temporary directory
  joined with the stem of the video path and \<open>_audio.wav\<close>; any exception of the
  extraction is raised again as a \<open>RuntimeError\<close>.
\<close>

definition STTEngine_audio_file :: "env \<Rightarrow> string \<Rightarrow> string" where
  "STTEngine_audio_file ev video_path =
     (let video_filename = path_stem video_path
      in os_path_join (temp_dir ev) (video_filename @ ''_audio.wav''))"

definition STTEngine_extract_audio_from_video ::
  "env \<Rightarrow> string \<Rightarrow> world \<Rightarrow> (exn + string) \<times> world" where
  "STTEngine_extract_audio_from_video ev video_path w =
     (let audio_file = STTEngine_audio_file ev video_path
      in case write_audiofile ev video_path of
           None \<Rightarrow> (Inr audio_file, w\<lparr>files := insert audio_file (files w)\<rparr>)
         | Some e \<Rightarrow> (Inl (RuntimeError (exn_str e)), w))"

text \<open>
  Lines 246 to 265: the capability is invoked, the segments are joined, then they are
  counted by iterating \<open>segments\<close> a second time.
\<close>

definition STTEngine_infer ::
  "env \<Rightarrow> engine \<Rightarrow> string \<Rightarrow> kwargs \<Rightarrow> world \<Rightarrow> (exn + string \<times> details) \<times> world" where
  "STTEngine_infer ev self audio_path params w =
     (let w1 = w\<lparr>calls := calls w @ [(audio_path, params)]\<rparr>
      in case model_transcribe ev audio_path params of
           Inl e \<Rightarrow> (Inl e, w1)
         | Inr (segments, nfo) \<Rightarrow>
             (case iterate segments of
                (Inl e, _) \<Rightarrow> (Inl e, w1)
              | (Inr joined, segments1) \<Rightarrow>
                  (let txt = join_str '' '' (map seg_text joined)
                   in case iterate segments1 of
                        (Inl e, _) \<Rightarrow> (Inl e, w1)
                      | (Inr counted, _) \<Rightarrow>
                          (Inr (txt,
                                \<lparr>d_language = info_language nfo,
                                 d_language_probability = info_language_probability nfo,
                                 d_duration = info_duration nfo,
                                 d_all_languages_probs = info_all_language_probs nfo,
                                 d_segments_count = length counted,
                                 d_model_size = model_size self,
                                 d_device = device self,
                                 d_compute_type = compute_type self\<rparr>),
                           w1))))"

text \<open>Lines 239 to 265: the body of the \<open>try\<close> once \<open>audio_path\<close> is known.\<close>

definition STTEngine_try_body ::
  "env \<Rightarrow> engine \<Rightarrow> string \<Rightarrow> kwargs \<Rightarrow> world \<Rightarrow> (exn + string \<times> details) \<times> world" where
  "STTEngine_try_body ev self audio_path params w =
     (if STTEngine_is_video_file audio_path
      then (case STTEngine_extract_audio_from_video ev audio_path w of
              (Inl e, w') \<Rightarrow> (Inl e, w')
            | (Inr extracted, w') \<Rightarrow> STTEngine_infer ev self extracted params w')
      else STTEngine_infer ev self audio_path params w)"

text \<open>The \<open>finally\<close> clause: only \<open>temp_file\<close> is removed, when it is set and exists.\<close>

definition STTEngine_finally :: "string option \<Rightarrow> world \<Rightarrow> world" where
  "STTEngine_finally temp_file w =
     (case temp_file of
        None \<Rightarrow> w
      | Some t \<Rightarrow> (if t \<noteq> [] \<and> t \<in> files w then w\<lparr>files := files w - {t}\<rparr> else w))"

datatype audio_input = AudioPath string | AudioArray "real list"

definition STTEngine_transcribe ::
  "env \<Rightarrow> engine \<Rightarrow> audio_input \<Rightarrow> string option \<Rightarrow> kwargs \<Rightarrow> world
     \<Rightarrow> (exn + string \<times> details) \<times> world" where
  "STTEngine_transcribe ev self audio_in lang kw w =
     (let params = transcribe_params self lang kw
      in case audio_in of
           AudioArray samples \<Rightarrow>
             (let temp_file = tmp_name ev;
                  w0 = w\<lparr>files := insert temp_file (files w)\<rparr>
              in case sf_write ev temp_file of
                   Some e \<Rightarrow> (Inl e, STTEngine_finally (Some temp_file) w0)
                 | None \<Rightarrow>
                     (let (r, w') = STTEngine_try_body ev self temp_file params w0
                      in (r, STTEngine_finally (Some temp_file) w')))
         | AudioPath audio_path \<Rightarrow>
             (let (r, w') = STTEngine_try_body ev self audio_path params w
              in (r, STTEngine_finally None w')))"

section \<open>Transcription: \<open>SpeechToText.transcribe\<close> (\<open>app.py\<close>)\<close>

record app_details =
  a_language :: string
  a_language_probability :: real
  a_duration :: real
  a_segments_count :: nat

text \<open>
  \<open>SpeechToText.extract_audio_from_video\<close>: the same naming scheme, with the name
  taken by \<open>ntpath.basename\<close> and cut by \<open>os.path.splitext\<close>; the exception of a failed
  extraction is raised as it is.
\<close>

definition SpeechToText_audio_file :: "env \<Rightarrow> string \<Rightarrow> string" where
  "SpeechToText_audio_file ev video_file =
     (let video_filename = ntpath_basename video_file
      in os_path_join (temp_dir ev) (fst (splitext video_filename) @ ''_audio.wav''))"

definition SpeechToText_extract_audio_from_video ::
  "env \<Rightarrow> string \<Rightarrow> world \<Rightarrow> (exn + string) \<times> world" where
  "SpeechToText_extract_audio_from_video ev video_file w =
     (let audio_file = SpeechToText_audio_file ev video_file
      in case write_audiofile ev video_file of
           None \<Rightarrow> (Inr audio_file, w\<lparr>files := insert audio_file (files w)\<rparr>)
         | Some e \<Rightarrow> (Inl e, w))"

text \<open>
  Lines 217 to 242: the capability is invoked with \<open>beam_size=5\<close> and the language
  only; the segments are joined, then counted by \<open>len(list(segments))\<close>; the extracted
  file is removed after that, on the path that reaches the end of the function.
\<close>

definition SpeechToText_infer ::
  "env \<Rightarrow> string \<Rightarrow> string option \<Rightarrow> world \<Rightarrow> (exn + string \<times> app_details) \<times> world" where
  "SpeechToText_infer ev audio_file lang w =
     (let params = [(''beam_size'', PInt 5), (''language'', opt_str lang)];
          w1 = w\<lparr>calls := calls w @ [(audio_file, params)]\<rparr>
      in case model_transcribe ev audio_file params of
           Inl e \<Rightarrow> (Inl e, w1)
         | Inr (segments, nfo) \<Rightarrow>
             (case iterate segments of
                (Inl e, _) \<Rightarrow> (Inl e, w1)
              | (Inr joined, segments1) \<Rightarrow>
                  (let transcription = join_str '' '' (map seg_text joined)
                   in case iterate segments1 of
                        (Inl e, _) \<Rightarrow> (Inl e, w1)
                      | (Inr counted, _) \<Rightarrow>
                          (let dets = \<lparr>a_language = info_language nfo,
                                       a_language_probability = info_language_probability nfo,
                                       a_duration = info_duration nfo,
                                       a_segments_count = length counted\<rparr>;
                               w2 = (if str_contains ''_audio.wav'' audio_file
                                        \<and> str_contains (temp_dir ev) audio_file
                                     then w1\<lparr>files := files w1 - {audio_file}\<rparr>
                                     else w1)
                           in (Inr (transcription, dets), w2)))))"

definition SpeechToText_transcribe ::
  "env \<Rightarrow> string \<Rightarrow> string option \<Rightarrow> world \<Rightarrow> (exn + string \<times> app_details) \<times> world" where
  "SpeechToText_transcribe ev audio_file lang w =
     (if SpeechToText_is_video_file audio_file
      then (case SpeechToText_extract_audio_from_video ev audio_file w of
              (Inl e, w') \<Rightarrow> (Inl e, w')
            | (Inr extracted, w') \<Rightarrow> SpeechToText_infer ev extracted lang w')
      else SpeechToText_infer ev audio_file lang w)"

section \<open>Model loading: \<open>STTEngine._load_model\<close>\<close>

text \<open>
  One construction \<open>WhisperModel(**kwargs)\<close> either returns the model or raises. Its
  outcome may depend on the attempt as well as on the arguments, so the capability
  takes the number of constructions made before it in this load.
\<close>

type_synonym whisper = "nat \<Rightarrow> load_kwargs \<Rightarrow> exn option"

text \<open>
  The entries of \<open>error_messages\<close>: which attempt failed, with the device, the
  precision and \<open>str(e)\<close> that the message interpolates.
\<close>

datatype load_failure =
    PrimaryFailed string string string
  | FallbackFailed string string string
  | TinyFailed string

fun failure_str :: "load_failure \<Rightarrow> string" where
  "failure_str (PrimaryFailed d c m) = ''primary('' @ d @ ''/'' @ c @ ''): '' @ m"
| "failure_str (FallbackFailed d c m) = ''fallback('' @ d @ ''/'' @ c @ ''): '' @ m"
| "failure_str (TinyFailed m) = ''tiny: '' @ m"

text \<open>Lines 95 to 102 and 136 to 142: \<open>cpu_threads\<close> is passed on the CPU only.\<close>

definition load_args :: "engine \<Rightarrow> string \<Rightarrow> string \<Rightarrow> load_kwargs" where
  "load_args self dev ct =
     \<lparr>kw_model_size = model_size self, kw_device = dev, kw_compute_type = ct,
      kw_download_root = Some (download_root self),
      kw_cpu_threads = (if dev = ''cpu'' then Some (cpu_threads self) else None)\<rparr>"

text \<open>Lines 117 to 128: the fallback configurations, chosen by the device.\<close>

definition fallback_configs :: "string \<Rightarrow> (string \<times> string) list" where
  "fallback_configs dev =
     (if dev = ''cuda''
      then [(''cuda'', ''int8_float16''), (''cuda'', ''int8''), (''cpu'', ''int8'')]
      else [(''cpu'', ''int8_float16''), (''cpu'', ''int8'')])"

text \<open>
  Lines 131 to 156, the loop over the fallback configurations: \<open>n\<close> counts the
  constructions made so far; the result is the engine, \<open>success\<close>,
  \<open>error_messages\<close> and the count.
\<close>

fun try_fallbacks ::
  "whisper \<Rightarrow> engine \<Rightarrow> nat \<Rightarrow> (string \<times> string) list \<Rightarrow> load_failure list
     \<Rightarrow> engine \<times> bool \<times> load_failure list \<times> nat" where
  "try_fallbacks W self n [] error_messages = (self, False, error_messages, n)"
| "try_fallbacks W self n ((dev, ct) # rest) error_messages =
     (let kwargs = load_args self dev ct
      in case W n kwargs of
           None \<Rightarrow>
             (self\<lparr>model := Some kwargs, device := Some dev, compute_type := Some ct\<rparr>,
              True, error_messages, n + 1)
         | Some e \<Rightarrow>
             try_fallbacks W self (n + 1) rest
               (error_messages @ [FallbackFailed dev ct (exn_str e)]))"

definition tiny_args :: "engine \<Rightarrow> load_kwargs" where
  "tiny_args self =
     \<lparr>kw_model_size = ''tiny'', kw_device = ''cpu'', kw_compute_type = ''int8'',
      kw_download_root = Some (download_root self), kw_cpu_threads = None\<rparr>"

text \<open>
  Lines 76 to 85: the device and the precision of the first attempt, from the
  arguments when they are given, else from the GPU probe and the model size.
\<close>

definition preferred_device :: "bool \<Rightarrow> engine \<Rightarrow> string" where
  "preferred_device cuda_ok self =
     (case device self of
        None \<Rightarrow> (if use_gpu self \<and> cuda_ok then ''cuda'' else ''cpu'')
      | Some d \<Rightarrow> d)"

definition preferred_compute_type :: "bool \<Rightarrow> engine \<Rightarrow> string" where
  "preferred_compute_type cuda_ok self =
     (case compute_type self of
        None \<Rightarrow>
          (if preferred_device cuda_ok self = ''cuda'' then ''float16''
           else if model_size self \<in> set [''medium'', ''large-v1'', ''large-v2'', ''large-v3'']
                then ''int8'' else ''int8_float16'')
      | Some c \<Rightarrow> c)"

text \<open>
  \<open>_load_model\<close>: \<open>cuda_ok\<close> is the result of \<open>_is_cuda_available()\<close>. The result is
  \<open>error_messages\<close> as it stands at the end, with the loaded engine or the
  \<open>RuntimeError\<close> of line 175.
\<close>

definition STTEngine_load_model ::
  "whisper \<Rightarrow> bool \<Rightarrow> engine \<Rightarrow> load_failure list \<times> (exn + engine)" where
  "STTEngine_load_model W cuda_ok self =
     (let dev = preferred_device cuda_ok self;
          ct = preferred_compute_type cuda_ok self;
          self1 = self\<lparr>device := Some dev, compute_type := Some ct\<rparr>;
          kwargs = load_args self1 dev ct
      in case W 0 kwargs of
           None \<Rightarrow> ([], Inr (self1\<lparr>model := Some kwargs\<rparr>))
         | Some e \<Rightarrow>
             (case try_fallbacks W self1 1 (fallback_configs dev)
                     [PrimaryFailed dev ct (exn_str e)] of
                (self2, success, error_messages, n) \<Rightarrow>
                  if success then (error_messages, Inr self2)
                  else if model_size self2 \<noteq> ''tiny'' then
                    (case W n (tiny_args self2) of
                       None \<Rightarrow>
                         (error_messages,
                          Inr (self2\<lparr>model := Some (tiny_args self2), model_size := ''tiny'',
                                     device := Some ''cpu'', compute_type := Some ''int8''\<rparr>))
                     | Some e' \<Rightarrow>
                         (let error_messages' = error_messages @ [TinyFailed (exn_str e')]
                          in (error_messages',
                              Inl (RuntimeError
                                     (join_str '', '' (map failure_str error_messages'))))))
                  else (error_messages,
                        Inl (RuntimeError (join_str '', '' (map failure_str error_messages))))))"

text \<open>
  The ladder in the words of the specification: the preferred candidate, then the
  secondary ladder of its device.
\<close>

definition spec_ladder :: "string \<Rightarrow> string \<Rightarrow> (string \<times> string) list" where
  "spec_ladder dev ct =
     (dev, ct) #
     (if dev = ''cuda''
      then [(''cuda'', ''int8_float16''), (''cuda'', ''int8''), (''cpu'', ''int8'')]
      else [(''cpu'', ''int8_float16''), (''cpu'', ''int8'')])"

section \<open>Model loading: \<open>SpeechToText.__init__\<close> (\<open>app.py\<close>)\<close>



section \<open>Normalisation of a buffer: \<open>normalize_audio\<close> (\<open>core/utils.py\<close>)\<close>

text \<open>
  A buffer is a one-dimensional array of samples; the samples are real numbers.

  \<open>np.arange(0, stop, step)\<close> is \<open>0, step, 2 * step, ...\<close>. Its length is computed
  by numpy in floating point, as the ceiling of \<open>stop / step\<close>, and the rounding of
  that quotient can add an element; the length is therefore a parameter
  \<open>alen stop step\<close>. \<open>exact_alen\<close> is the length without rounding.
\<close>

type_synonym arange_len = "real \<Rightarrow> real \<Rightarrow> nat"

definition exact_alen :: arange_len where
  "exact_alen stop step = nat \<lceil>stop / step\<rceil>"

definition np_arange :: "arange_len \<Rightarrow> real \<Rightarrow> real \<Rightarrow> real list" where
  "np_arange alen stop step = map (\<lambda>k. real k * step) [0..<alen stop step]"

text \<open>
  \<open>np.interp(x, np.arange(0, len(fp)), fp)\<close> at one point \<open>x\<close>: the first sample left
  of the sample points, the last sample right of them, and the linear interpolation of
  the two neighbours between them.
\<close>

definition np_interp_at :: "real list \<Rightarrow> real \<Rightarrow> real" where
  "np_interp_at fp x =
     (let n = length fp
      in if x \<le> 0 then fp ! 0
         else if real (n - 1) \<le> x then fp ! (n - 1)
         else (let j = nat \<lfloor>x\<rfloor>
               in (fp ! (j + 1) - fp ! j) * (x - real j) + fp ! j))"

text \<open>\<open>np.max(np.abs(a))\<close>, for a buffer that is not empty.\<close>

definition np_max_abs :: "real list \<Rightarrow> real" where
  "np_max_abs a = Max (abs ` set a)"

text \<open>
  Lines 109 to 116: the resampling, when the rate is not 16000. \<open>16000 / 0\<close> raises
  \<open>ZeroDivisionError\<close>; \<open>np.interp\<close> raises \<open>ValueError\<close> on an empty buffer.
\<close>

definition resample :: "arange_len \<Rightarrow> real list \<Rightarrow> int \<Rightarrow> exn + real list" where
  "resample alen audio_data sample_rate =
     (if sample_rate \<noteq> 16000 then
        (if sample_rate = 0 then Inl ZeroDivisionError
         else (let ratio = 16000 / real_of_int sample_rate
               in if audio_data = [] then Inl (ValueError ''array of sample points is empty'')
                  else Inr (map (np_interp_at audio_data)
                              (np_arange alen (real (length audio_data) * ratio) ratio))))
      else Inr audio_data)"

text \<open>
  Lines 119 to 122: the division by the peak, guarded by \<open>> 0\<close>. \<open>np.max\<close> raises
  \<open>ValueError\<close> on an empty buffer.
\<close>

definition normalize_volume :: "real list \<Rightarrow> exn + real list" where
  "normalize_volume audio_data =
     (if audio_data = [] then Inl (ValueError ''zero-size array to reduction operation'')
      else if np_max_abs audio_data > 0
           then Inr (map (\<lambda>x. x / np_max_abs audio_data) audio_data)
           else Inr audio_data)"

definition normalize_audio :: "arange_len \<Rightarrow> real list \<Rightarrow> int \<Rightarrow> exn + real list" where
  "normalize_audio alen audio_data sample_rate =
     (case resample alen audio_data sample_rate of
        Inl e \<Rightarrow> Inl e
      | Inr resampled \<Rightarrow> normalize_volume resampled)"

section \<open>Conversion of a video: \<open>convert_video_to_audio\<close> (\<open>core/utils.py\<close>)\<close>

text \<open>
  Here the file system maps each path that exists to the size of its file. What the
  function does not decide: the outcome of \<open>ffmpeg -version\<close> (\<open>None\<close>: it ran), the
  outcome of \<open>NamedTemporaryFile\<close> (the name of the file it created, or the exception
  it raised), and what the conversion does to the file system, with the exception it
  raised, if any. \<open>os.unlink\<close> is taken to succeed on a file that exists.
\<close>

type_synonym fs = "string \<rightharpoonup> nat"

record conv_env =
  ffmpeg_version :: "exn option"
  named_temporary_file :: "exn + string"
  ffmpeg_convert :: "string \<Rightarrow> string \<Rightarrow> fs \<Rightarrow> exn option \<times> fs"

text \<open>
  \<open>check_ffmpeg_available\<close>: \<open>SubprocessError\<close> and \<open>FileNotFoundError\<close> are caught
  and give \<open>False\<close>; any other exception propagates.
\<close>

definition check_ffmpeg_available :: "conv_env \<Rightarrow> exn + bool" where
  "check_ffmpeg_available ev =
     (case ffmpeg_version ev of
        None \<Rightarrow> Inr True
      | Some (SubprocessError m) \<Rightarrow> Inr False
      | Some (FileNotFoundError m) \<Rightarrow> Inr False
      | Some e \<Rightarrow> Inl e)"

text \<open>
  The two handlers of lines 85 to 94 have the same body:
  \<^verbatim>\<open>
    if os.path.exists(audio_path):
        os.unlink(audio_path)
    return "", False
  \<close>
  \<open>audio_path\<close> is assigned inside the \<open>with\<close> block; when \<open>NamedTemporaryFile\<close>
  itself raises, the variable is unbound and the handler raises
  \<open>UnboundLocalError\<close>.
\<close>

definition conv_handler :: "string option \<Rightarrow> fs \<Rightarrow> (exn + string \<times> bool) \<times> fs" where
  "conv_handler audio_path disk =
     (case audio_path of
        None \<Rightarrow> (Inl (UnboundLocalError ''audio_path''), disk)
      | Some p \<Rightarrow>
          (Inr ([], False), (if disk p \<noteq> None then disk(p := None) else disk)))"

definition convert_video_to_audio ::
  "conv_env \<Rightarrow> string \<Rightarrow> fs \<Rightarrow> (exn + string \<times> bool) \<times> fs" where
  "convert_video_to_audio ev video_path disk =
     (case check_ffmpeg_available ev of
        Inl e \<Rightarrow> (Inl e, disk)
      | Inr False \<Rightarrow> (Inr ([], False), disk)
      | Inr True \<Rightarrow>
          (case named_temporary_file ev of
             Inl e \<Rightarrow> conv_handler None disk
           | Inr audio_path \<Rightarrow>
               (case ffmpeg_convert ev video_path audio_path (disk(audio_path \<mapsto> 0)) of
                  (Some e, disk') \<Rightarrow> conv_handler (Some audio_path) disk'
                | (None, disk') \<Rightarrow>
                    (if disk' audio_path \<noteq> None \<and> the (disk' audio_path) > 0
                     then (Inr (audio_path, True), disk')
                     else (Inr ([], False), disk')))))"

section \<open>Stubs of the test scenarios\<close>

text \<open>
  The stub of the inference capability: it yields the two segments \<open>Hello\<close> and
  \<open>world\<close> from a generator, as the capability does, with the info
  \<open>{language: en, language_probability: 0.95, duration: 2.0}\<close>.
\<close>

definition stub_segments :: "segment list" where
  "stub_segments =
     [\<lparr>seg_text = ''Hello'', seg_start = 0, seg_end = 1\<rparr>,
      \<lparr>seg_text = ''world'', seg_start = 1, seg_end = 2\<rparr>]"

definition stub_info :: info where
  "stub_info =
     \<lparr>info_language = ''en'', info_language_probability = 95 / 100, info_duration = 2,
      info_all_language_probs = None\<rparr>"

definition stub_env :: env where
  "stub_env =
     \<lparr>tmp_name = ''/tmp/tmpab12.wav'', temp_dir = ''/tmp'',
      sf_write = (\<lambda>_. None), write_audiofile = (\<lambda>_. None),
      model_transcribe = (\<lambda>p k. Inr (PyGen stub_segments None, stub_info))\<rparr>"

text \<open>The same environment with an inference capability that raises.\<close>

definition raising_env :: env where
  "raising_env =
     \<lparr>tmp_name = ''/tmp/tmpab12.wav'', temp_dir = ''/tmp'',
      sf_write = (\<lambda>_. None), write_audiofile = (\<lambda>_. None),
      model_transcribe = (\<lambda>p k. Inl (RuntimeError ''inference failed''))\<rparr>"

definition stub_engine :: engine where
  "stub_engine =
     \<lparr>model_size = ''medium'', use_gpu = True, device = Some ''cpu'',
      compute_type = Some ''int8'', download_root = ''/root/.cache/whisper'',
      cpu_threads = 4, language = None, model = None\<rparr>"

definition video_world :: world where
  "video_world = \<lparr>files = {''/videos/clip.mp4'', ''speech.wav''}, calls = []\<rparr>"



definition cpu_engine :: engine where
  "cpu_engine =
     \<lparr>model_size = ''medium'', use_gpu = False, device = None, compute_type = None,
      download_root = ''/root/.cache/whisper'', cpu_threads = 4, language = None,
      model = None\<rparr>"

text \<open>
  A host on which ffmpeg runs and converts, and on which no temporary file can be
  created.
\<close>

definition no_tempdir_env :: conv_env where
  "no_tempdir_env =
     \<lparr>ffmpeg_version = None,
      named_temporary_file = Inl (FileNotFoundError ''No usable temporary directory found''),
      ffmpeg_convert = (\<lambda>video audio disk. (None, disk(audio \<mapsto> 1024)))\<rparr>"

text \<open>A host on which ffmpeg is installed and cannot be executed.\<close>

definition no_exec_env :: conv_env where
  "no_exec_env =
     \<lparr>ffmpeg_version = Some (OSError ''Permission denied''),
      named_temporary_file = Inr ''/tmp/tmpcd34.wav'',
      ffmpeg_convert = (\<lambda>video audio disk. (None, disk(audio \<mapsto> 1024)))\<rparr>"

section \<open>Segments: joined, then counted\<close>

lemma files_STTEngine_infer [simp]:
  "files (snd (STTEngine_infer ev self p params w)) = files w"
  by (simp add: STTEngine_infer_def Let_def split: sum.splits prod.splits)

lemma files_SpeechToText_infer_raise:
  "isl (fst (SpeechToText_infer ev p lang w)) \<Longrightarrow>
   files (snd (SpeechToText_infer ev p lang w)) = files w"
  by (auto simp: SpeechToText_infer_def Let_def split: sum.splits prod.splits)

text \<open>
  When the capability returns a generator, the join consumes it and the count that
  follows sees nothing; when it returns a list, the count is the number of segments.
\<close>

lemma STTEngine_infer_generator:
  "model_transcribe ev p params = Inr (PyGen xs None, nfo) \<Longrightarrow>
   \<exists>d. fst (STTEngine_infer ev self p params w) = Inr (join_str '' '' (map seg_text xs), d)
       \<and> d_segments_count d = 0"
  by (simp add: STTEngine_infer_def)

lemma STTEngine_infer_list:
  "model_transcribe ev p params = Inr (PyList xs, nfo) \<Longrightarrow>
   \<exists>d. fst (STTEngine_infer ev self p params w) = Inr (join_str '' '' (map seg_text xs), d)
       \<and> d_segments_count d = length xs"
  by (simp add: STTEngine_infer_def)

lemma SpeechToText_infer_generator:
  "model_transcribe ev p [(''beam_size'', PInt 5), (''language'', opt_str lang)]
     = Inr (PyGen xs None, nfo) \<Longrightarrow>
   \<exists>d. fst (SpeechToText_infer ev p lang w) = Inr (join_str '' '' (map seg_text xs), d)
       \<and> a_segments_count d = 0"
  by (simp add: SpeechToText_infer_def Let_def)

text \<open>
  C1. With the stub that yields \<open>Hello\<close> and \<open>world\<close>, the text is \<open>Hello world\<close> and
  the language is \<open>en\<close>, but the segment count reported is 0, not 2, in
  \<open>STTEngine.transcribe\<close> and in \<open>SpeechToText.transcribe\<close> alike: the generator is
  iterated for the join and again for the count.
\<close>

theorem C1_segment_count_after_join:
  "map_sum id (\<lambda>(t, d). (t, d_language d, d_segments_count d))
     (fst (STTEngine_transcribe stub_env stub_engine (AudioPath ''speech.wav'') None []
            video_world))
     = Inr (''Hello world'', ''en'', 0)
   \<and> map_sum id (\<lambda>(t, d). (t, a_language d, a_segments_count d))
     (fst (SpeechToText_transcribe stub_env ''speech.wav'' None video_world))
     = Inr (''Hello world'', ''en'', 0)"
  by code_simp

section \<open>The extracted audio file after a call on a video\<close>

text \<open>
  \<open>STTEngine.transcribe\<close> never removes the file it extracted: \<open>temp_file\<close> is set
  for array inputs only, so that the \<open>finally\<close> clause has nothing to remove.
\<close>

lemma STTEngine_transcribe_keeps_extracted:
  assumes "STTEngine_is_video_file p" and "write_audiofile ev p = None"
  shows "STTEngine_audio_file ev p
           \<in> files (snd (STTEngine_transcribe ev self (AudioPath p) lang kw w))"
  using assms
  by (simp add: STTEngine_transcribe_def STTEngine_try_body_def STTEngine_finally_def
      STTEngine_extract_audio_from_video_def Let_def split: prod.splits)

text \<open>
  \<open>SpeechToText.transcribe\<close> removes it at the end of the function only: when the
  inference raises, the file stays.
\<close>

lemma SpeechToText_transcribe_keeps_extracted_on_raise:
  assumes "SpeechToText_is_video_file p" and "write_audiofile ev p = None"
    and "isl (fst (SpeechToText_transcribe ev p lang w))"
  shows "SpeechToText_audio_file ev p \<in> files (snd (SpeechToText_transcribe ev p lang w))"
  using assms
  by (simp add: SpeechToText_transcribe_def SpeechToText_extract_audio_from_video_def Let_def
      files_SpeechToText_infer_raise)

text \<open>
  C2. The video \<open>/videos/clip.mp4\<close> is extracted to \<open>/tmp/clip_audio.wav\<close>, which
  does not exist before the call. It exists after \<open>STTEngine.transcribe\<close> has returned
  a result, after \<open>STTEngine.transcribe\<close> has raised, and after
  \<open>SpeechToText.transcribe\<close> has raised.
\<close>

theorem C2_extracted_audio_left_behind:
  "STTEngine_is_video_file ''/videos/clip.mp4''
   \<and> STTEngine_audio_file stub_env ''/videos/clip.mp4'' = ''/tmp/clip_audio.wav''
   \<and> ''/tmp/clip_audio.wav'' \<notin> files video_world
   \<and> \<not> isl (fst (STTEngine_transcribe stub_env stub_engine (AudioPath ''/videos/clip.mp4'')
                   None [] video_world))
   \<and> ''/tmp/clip_audio.wav''
       \<in> files (snd (STTEngine_transcribe stub_env stub_engine (AudioPath ''/videos/clip.mp4'')
                       None [] video_world))
   \<and> isl (fst (STTEngine_transcribe raising_env stub_engine (AudioPath ''/videos/clip.mp4'')
                 None [] video_world))
   \<and> ''/tmp/clip_audio.wav''
       \<in> files (snd (STTEngine_transcribe raising_env stub_engine
                       (AudioPath ''/videos/clip.mp4'') None [] video_world))
   \<and> SpeechToText_is_video_file ''/videos/clip.mp4''
   \<and> isl (fst (SpeechToText_transcribe raising_env ''/videos/clip.mp4'' None video_world))
   \<and> ''/tmp/clip_audio.wav''
       \<in> files (snd (SpeechToText_transcribe raising_env ''/videos/clip.mp4'' None
                       video_world))"
  by code_simp

section \<open>The degradation ladder of model loading\<close>

lemma load_args_upd [simp]:
  "load_args (self\<lparr>device := d, compute_type := c\<rparr>) dev ct = load_args self dev ct"
  by (simp add: load_args_def)

text \<open>
  The fallback loop stops at the first configuration that loads, takes its device and
  precision, and has appended one failure record for each configuration before it.
\<close>

lemma try_fallbacks_first_success:
  assumes "k < length cfgs"
    and "\<forall>i<k. W (n + i) (load_args self (fst (cfgs ! i)) (snd (cfgs ! i))) \<noteq> None"
    and "W (n + k) (load_args self (fst (cfgs ! k)) (snd (cfgs ! k))) = None"
  shows "\<exists>errs'. try_fallbacks W self n cfgs errs =
           (self\<lparr>model := Some (load_args self (fst (cfgs ! k)) (snd (cfgs ! k))),
                  device := Some (fst (cfgs ! k)), compute_type := Some (snd (cfgs ! k))\<rparr>,
            True, errs @ errs', n + k + 1) \<and> length errs' = k"
  using assms
proof (induction cfgs arbitrary: n errs k)
  case Nil
  then show ?case by simp
next
  case (Cons c rest)
  obtain dev ct where c: "c = (dev, ct)" by (cases c)
  show ?case
  proof (cases k)
    case 0
    with Cons.prems c show ?thesis by simp
  next
    case (Suc j)
    from Cons.prems(2) Suc have "W (n + 0) (load_args self (fst ((c # rest) ! 0)) (snd ((c # rest) ! 0))) \<noteq> None"
      by blast
    then obtain e where e: "W n (load_args self dev ct) = Some e"
      using c by auto
    have j: "j < length rest" using Cons.prems(1) Suc by simp
    have fails: "\<forall>i<j. W (Suc n + i) (load_args self (fst (rest ! i)) (snd (rest ! i))) \<noteq> None"
    proof (intro allI impI)
      fix i assume "i < j"
      then have "Suc i < k" using Suc by simp
      with Cons.prems(2) have "W (n + Suc i) (load_args self (fst ((c # rest) ! Suc i)) (snd ((c # rest) ! Suc i))) \<noteq> None"
        by blast
      then show "W (Suc n + i) (load_args self (fst (rest ! i)) (snd (rest ! i))) \<noteq> None" by simp
    qed
    have ok: "W (Suc n + j) (load_args self (fst (rest ! j)) (snd (rest ! j))) = None"
      using Cons.prems(3) Suc by simp
    from Cons.IH [OF j fails ok, of "errs @ [FallbackFailed dev ct (exn_str e)]"]
    obtain errs' where
      r: "try_fallbacks W self (Suc n) rest (errs @ [FallbackFailed dev ct (exn_str e)]) =
           (self\<lparr>model := Some (load_args self (fst (rest ! j)) (snd (rest ! j))),
                  device := Some (fst (rest ! j)), compute_type := Some (snd (rest ! j))\<rparr>,
            True, (errs @ [FallbackFailed dev ct (exn_str e)]) @ errs', Suc n + j + 1)"
      and l: "length errs' = j" by blast
    show ?thesis
      apply (rule exI [of _ "FallbackFailed dev ct (exn_str e) # errs'"])
      using r l e c Suc by simp
  qed
qed

text \<open>
  \<open>STTEngine._load_model\<close> follows the ladder of the specification: when the first
  \<open>k\<close> tiers fail and tier \<open>k\<close> loads, the engine has the device and the precision of
  tier \<open>k\<close>, the model built with them, the model size asked for, and
  \<open>error_messages\<close> holds \<open>k\<close> records.
\<close>

lemma STTEngine_load_model_ladder:
  fixes W cuda_ok self
  defines "dev \<equiv> preferred_device cuda_ok self"
    and "ct \<equiv> preferred_compute_type cuda_ok self"
  defines "L \<equiv> spec_ladder dev ct"
  assumes k: "k < length L"
    and fails: "\<forall>i<k. W i (load_args self (fst (L ! i)) (snd (L ! i))) \<noteq> None"
    and ok: "W k (load_args self (fst (L ! k)) (snd (L ! k))) = None"
  shows "\<exists>errs eng. STTEngine_load_model W cuda_ok self = (errs, Inr eng)
           \<and> length errs = k
           \<and> device eng = Some (fst (L ! k)) \<and> compute_type eng = Some (snd (L ! k))
           \<and> model eng = Some (load_args self (fst (L ! k)) (snd (L ! k)))
           \<and> model_size eng = model_size self"
proof -
  define self1 where "self1 = self\<lparr>device := Some dev, compute_type := Some ct\<rparr>"
  have L: "L = (dev, ct) # fallback_configs dev"
    by (simp add: L_def spec_ladder_def fallback_configs_def)
  show ?thesis
  proof (cases k)
    case 0
    with ok L have "W 0 (load_args self dev ct) = None" by simp
    then show ?thesis
      using 0 L by (simp add: STTEngine_load_model_def Let_def dev_def ct_def)
  next
    case (Suc j)
    from fails Suc have "W 0 (load_args self (fst (L ! 0)) (snd (L ! 0))) \<noteq> None" by blast
    then obtain e where e: "W 0 (load_args self dev ct) = Some e" using L by auto
    have j: "j < length (fallback_configs dev)" using k Suc L by simp
    have f: "\<forall>i<j. W (1 + i) (load_args self1 (fst (fallback_configs dev ! i))
                 (snd (fallback_configs dev ! i))) \<noteq> None"
    proof (intro allI impI)
      fix i assume "i < j"
      then have "Suc i < k" using Suc by simp
      with fails have "W (Suc i) (load_args self (fst (L ! Suc i)) (snd (L ! Suc i))) \<noteq> None"
        by blast
      then show "W (1 + i) (load_args self1 (fst (fallback_configs dev ! i))
                   (snd (fallback_configs dev ! i))) \<noteq> None"
        using L by (simp add: self1_def)
    qed
    have s: "W (1 + j) (load_args self1 (fst (fallback_configs dev ! j))
               (snd (fallback_configs dev ! j))) = None"
      using ok Suc L by (simp add: self1_def)
    from try_fallbacks_first_success [OF j f s, of "[PrimaryFailed dev ct (exn_str e)]"]
    obtain errs' where
      r: "try_fallbacks W self1 1 (fallback_configs dev) [PrimaryFailed dev ct (exn_str e)] =
           (self1\<lparr>model := Some (load_args self1 (fst (fallback_configs dev ! j))
                                    (snd (fallback_configs dev ! j))),
                  device := Some (fst (fallback_configs dev ! j)),
                  compute_type := Some (snd (fallback_configs dev ! j))\<rparr>,
            True, [PrimaryFailed dev ct (exn_str e)] @ errs', 1 + j + 1)"
      and l: "length errs' = j" by blast
    have "STTEngine_load_model W cuda_ok self =
            ([PrimaryFailed dev ct (exn_str e)] @ errs',
             Inr (self1\<lparr>model := Some (load_args self1 (fst (fallback_configs dev ! j))
                                    (snd (fallback_configs dev ! j))),
                  device := Some (fst (fallback_configs dev ! j)),
                  compute_type := Some (snd (fallback_configs dev ! j))\<rparr>))"
      using e r
      by (simp add: STTEngine_load_model_def Let_def dev_def [symmetric] ct_def [symmetric]
          self1_def [symmetric])
    then show ?thesis
      using l Suc L by (simp add: self1_def)
  qed
qed


section \<open>The inference profile\<close>

text \<open>Without overrides, \<open>STTEngine.transcribe\<close> builds the default profile.\<close>

lemma transcribe_params_default:
  "transcribe_params self lang [] =
     [(''beam_size'', PInt 3),
      (''language'', opt_str (py_or lang (language self))),
      (''vad_filter'', PBool True),
      (''vad_parameters'', PDict [(''min_silence_duration_ms'', PInt 500)]),
      (''condition_on_previous_text'', PBool False)]"
  by (simp add: transcribe_params_def dict_update_def)

lemma calls_STTEngine_infer [simp]:
  "calls (snd (STTEngine_infer ev self p params w)) = calls w @ [(p, params)]"
  by (simp add: STTEngine_infer_def Let_def split: sum.splits prod.splits)

lemma calls_STTEngine_finally [simp]:
  "calls (STTEngine_finally t w) = calls w"
  by (simp add: STTEngine_finally_def split: option.splits)

lemma calls_STTEngine_try_body:
  "calls (snd (STTEngine_try_body ev self p params w)) = calls w
   \<or> (\<exists>q. calls (snd (STTEngine_try_body ev self p params w)) = calls w @ [(q, params)])"
proof (cases "STTEngine_is_video_file p")
  case False
  then show ?thesis by (simp add: STTEngine_try_body_def)
next
  case True
  show ?thesis
  proof (cases "write_audiofile ev p")
    case None
    with True show ?thesis
      by (simp add: STTEngine_try_body_def STTEngine_extract_audio_from_video_def Let_def)
  next
    case (Some e)
    with True show ?thesis
      by (simp add: STTEngine_try_body_def STTEngine_extract_audio_from_video_def Let_def)
  qed
qed

text \<open>
  \<open>STTEngine.transcribe\<close> invokes the capability at most once, and with the profile
  it built.
\<close>

lemma STTEngine_transcribe_calls:
  "calls (snd (STTEngine_transcribe ev self audio_in lang kw w)) = calls w
   \<or> (\<exists>p. calls (snd (STTEngine_transcribe ev self audio_in lang kw w))
            = calls w @ [(p, transcribe_params self lang kw)])"
proof (cases audio_in)
  case (AudioPath p)
  with calls_STTEngine_try_body [of ev self p "transcribe_params self lang kw" w]
  show ?thesis
    by (auto simp: STTEngine_transcribe_def Let_def split: prod.splits)
next
  case (AudioArray samples)
  show ?thesis
  proof (cases "sf_write ev (tmp_name ev)")
    case (Some e)
    with AudioArray show ?thesis
      by (simp add: STTEngine_transcribe_def Let_def)
  next
    case None
    with AudioArray
      calls_STTEngine_try_body [of ev self "tmp_name ev" "transcribe_params self lang kw"
        "w\<lparr>files := insert (tmp_name ev) (files w)\<rparr>"]
    show ?thesis
      by (auto simp: STTEngine_transcribe_def Let_def split: prod.splits)
  qed
qed


section \<open>What \<open>os.path.splitext\<close> computes\<close>

lemma rfind_append:
  "rfind c (xs @ ys) = (if c \<in> set ys then int (length xs) + rfind c ys else rfind c xs)"
proof (cases "c \<in> set ys")
  case True
  then have "takeWhile (\<lambda>x. x \<noteq> c) (rev ys @ rev xs) = takeWhile (\<lambda>x. x \<noteq> c) (rev ys)"
    by (intro takeWhile_append1 [of c]) auto
  with True show ?thesis by (simp add: rfind_def)
next
  case False
  then have "takeWhile (\<lambda>x. x \<noteq> c) (rev ys @ rev xs) = rev ys @ takeWhile (\<lambda>x. x \<noteq> c) (rev xs)"
    by (intro takeWhile_append2) auto
  with False show ?thesis by (simp add: rfind_def)
qed

lemma rfind_notin: "c \<notin> set s \<Longrightarrow> rfind c s = - 1"
  by (simp add: rfind_def)

lemma rfind_lt: "rfind c s < int (length s)"
  by (simp add: rfind_def)

lemma rfind_last: "c \<notin> set t \<Longrightarrow> rfind c (a @ c # t) = int (length a)"
proof -
  assume "c \<notin> set t"
  then have "takeWhile (\<lambda>x. x \<noteq> c) (rev t @ c # rev a) = rev t"
    by (auto simp: takeWhile_tail)
  then show ?thesis by (simp add: rfind_def)
qed

lemma rfind_ge: "- 1 \<le> rfind c s"
proof (cases "c \<in> set s")
  case False
  then show ?thesis by (simp add: rfind_def)
next
  case True
  then obtain a t where "s = a @ c # t" and "c \<notin> set t"
    using split_list_last by fastforce
  then show ?thesis using rfind_last [of c t a] by simp
qed

lemma drop_rfind: "drop (nat (rfind CHR ''/'' s + 1)) s = last_component s"
proof (cases "CHR ''/'' \<in> set s")
  case False
  then have tw: "takeWhile (\<lambda>x. x \<noteq> CHR ''/'') (rev s) = rev s" by auto
  show ?thesis unfolding last_component_def tw using False by (simp add: rfind_def)
next
  case True
  then obtain a t where s: "s = a @ CHR ''/'' # t" and t: "CHR ''/'' \<notin> set t"
    using split_list_last by fastforce
  have "takeWhile (\<lambda>x. x \<noteq> CHR ''/'') (rev t @ CHR ''/'' # rev a) = rev t"
    using t by (auto simp: takeWhile_tail)
  moreover have "nat (int (length a) + 1) = Suc (length a)" by simp
  ultimately show ?thesis using s t rfind_last [of "CHR ''/''" t a]
    by (simp add: last_component_def)
qed

lemma splitext_loop_char:
  "i \<le> d \<Longrightarrow> d \<le> length p \<Longrightarrow>
   splitext_loop p i d =
     (if \<exists>c \<in> set (drop i (take d p)). c \<noteq> CHR ''.'' then (take d p, drop d p) else (p, []))"
proof (induction p i d rule: splitext_loop.induct)
  case (1 p i d)
  show ?case
  proof (cases "i < d")
    case False
    then have "drop i (take d p) = []" by simp
    moreover have "splitext_loop p i d = (p, [])"
      using False by (subst splitext_loop.simps) simp
    ultimately show ?thesis by simp
  next
    case True
    then have il: "i < length p" using "1.prems" by simp
    have dr: "drop i (take d p) = p ! i # drop (Suc i) (take d p)"
      using True il by (simp add: Cons_nth_drop_Suc [symmetric])
    have t1: "take 1 (drop i p) = [p ! i]"
      using il by (metis Cons_nth_drop_Suc One_nat_def take0 take_Suc_Cons)
    show ?thesis
    proof (cases "p ! i = CHR ''.''")
      case False
      have "splitext_loop p i d = (take d p, drop d p)"
        using True t1 False by (subst splitext_loop.simps) simp
      then show ?thesis using False dr by simp
    next
      case dot: True
      have nd: "\<not> take 1 (drop i p) \<noteq> ''.''" using t1 dot by simp
      have le: "i + 1 \<le> d" using True by simp
      have "splitext_loop p i d = splitext_loop p (i + 1) d"
        using True nd by (subst splitext_loop.simps) simp
      also have "\<dots> = (if \<exists>c \<in> set (drop (i + 1) (take d p)). c \<noteq> CHR ''.''
                         then (take d p, drop d p) else (p, []))"
        by (rule "1.IH" [OF True nd le "1.prems"(2)])
      also have "\<dots> = (if \<exists>c \<in> set (drop i (take d p)). c \<noteq> CHR ''.''
                         then (take d p, drop d p) else (p, []))"
        unfolding dr using dot by simp
      finally show ?thesis .
    qed
  qed
qed

text \<open>
  A path without a dot has no extension. A path whose last dot is followed by \<open>t\<close> has
  the extension \<open>.t\<close> when \<open>t\<close> has no separator and the last component has a
  character other than a dot before that dot; else it has none.
\<close>

lemma splitext_no_dot: "CHR ''.'' \<notin> set p \<Longrightarrow> splitext p = (p, [])"
  using rfind_ge [of "CHR ''/''" p] by (simp add: splitext_def rfind_notin)

lemma splitext_last_dot:
  assumes "CHR ''.'' \<notin> set t"
  shows "splitext (a @ CHR ''.'' # t) =
     (if CHR ''/'' \<notin> set t \<and> (\<exists>c \<in> set (last_component a). c \<noteq> CHR ''.'')
      then (a, CHR ''.'' # t) else (a @ CHR ''.'' # t, []))"
proof -
  let ?p = "a @ CHR ''.'' # t"
  have dot: "rfind CHR ''.'' ?p = int (length a)" using assms by (rule rfind_last)
  show ?thesis
  proof (cases "CHR ''/'' \<in> set t")
    case True
    then have "rfind CHR ''/'' ?p = int (length a) + rfind CHR ''/'' ([CHR ''.''] @ t)"
      using rfind_append [of "CHR ''/''" a "CHR ''.'' # t"] by simp
    also have "rfind CHR ''/'' ([CHR ''.''] @ t) = 1 + rfind CHR ''/'' t"
      using True by (simp only: rfind_append) simp
    finally have "rfind CHR ''/'' ?p \<ge> int (length a)"
      using rfind_ge [of "CHR ''/''" t] by linarith
    then show ?thesis using True dot by (simp add: splitext_def)
  next
    case False
    then have sep: "rfind CHR ''/'' ?p = rfind CHR ''/'' a"
      using rfind_append [of "CHR ''/''" a "CHR ''.'' # t"] by simp
    have lt: "rfind CHR ''/'' a < int (length a)" by (rule rfind_lt)
    have ge: "- 1 \<le> rfind CHR ''/'' a" by (rule rfind_ge)
    have "splitext ?p = splitext_loop ?p (nat (rfind CHR ''/'' a + 1)) (length a)"
      using sep dot lt by (simp add: splitext_def)
    also have "\<dots> = (if \<exists>c \<in> set (drop (nat (rfind CHR ''/'' a + 1)) (take (length a) ?p)). c \<noteq> CHR ''.''
        then (take (length a) ?p, drop (length a) ?p) else (?p, []))"
      using lt ge by (intro splitext_loop_char) auto
    finally show ?thesis using False by (simp add: drop_rfind)
  qed
qed

section \<open>Classification by extension\<close>

lemma lower_char_dot [simp]: "lower_char c = CHR ''.'' \<longleftrightarrow> c = CHR ''.''"
  by (simp add: lower_char_def lower_table_def split: option.splits)

lemma lower_char_slash [simp]: "lower_char c = CHR ''/'' \<longleftrightarrow> c = CHR ''/''"
  by (simp add: lower_char_def lower_table_def split: option.splits)

lemma lower_char_dot' [simp]: "CHR ''.'' = lower_char c \<longleftrightarrow> c = CHR ''.''"
  by (metis lower_char_dot)

lemma lower_char_slash' [simp]: "CHR ''/'' = lower_char c \<longleftrightarrow> c = CHR ''/''"
  by (metis lower_char_slash)

lemma lower_Nil [simp]: "lower e = [] \<longleftrightarrow> e = []"
  by (simp add: lower_def)

lemma lower_empty [simp]: "lower [] = []"
  by (simp add: lower_def)

lemma dot_in_lower [simp]: "CHR ''.'' \<in> set (lower t) \<longleftrightarrow> CHR ''.'' \<in> set t"
  by (auto simp: lower_def)

lemma slash_in_lower [simp]: "CHR ''/'' \<in> set (lower t) \<longleftrightarrow> CHR ''/'' \<in> set t"
  by (auto simp: lower_def)

lemma lower_Cons_dot: "lower e = CHR ''.'' # u \<longleftrightarrow> (\<exists>t. e = CHR ''.'' # t \<and> lower t = u)"
  by (cases e) (auto simp: lower_def)

text \<open>The two parts that \<open>splitext\<close> returns make up the path.\<close>

lemma splitext_concat: "splitext p = (r, e) \<Longrightarrow> p = r @ e"
proof (cases "CHR ''.'' \<in> set p")
  case False
  assume "splitext p = (r, e)"
  with False show ?thesis by (simp add: splitext_no_dot)
next
  case True
  assume s: "splitext p = (r, e)"
  from True obtain a t where "p = a @ CHR ''.'' # t" and "CHR ''.'' \<notin> set t"
    using split_list_last by fastforce
  with s show ?thesis by (auto simp: splitext_last_dot split: if_splits)
qed

lemma splitext_ext_shape:
  assumes "splitext p = (r, e)" and "e \<noteq> []"
  shows "\<exists>t. e = CHR ''.'' # t \<and> CHR ''.'' \<notin> set t \<and> CHR ''/'' \<notin> set t
           \<and> (\<exists>c \<in> set (last_component r). c \<noteq> CHR ''.'')"
proof (cases "CHR ''.'' \<in> set p")
  case False
  with assms show ?thesis by (simp add: splitext_no_dot)
next
  case True
  then obtain a t where "p = a @ CHR ''.'' # t" and "CHR ''.'' \<notin> set t"
    using split_list_last by fastforce
  with assms show ?thesis by (auto simp: splitext_last_dot split: if_splits)
qed

lemma splitext_ext:
  assumes "CHR ''.'' \<notin> set t" and "CHR ''/'' \<notin> set t"
    and "\<exists>c \<in> set (last_component r). c \<noteq> CHR ''.''"
  shows "splitext (r @ CHR ''.'' # t) = (r, CHR ''.'' # t)"
  using assms by (simp add: splitext_last_dot)

text \<open>Changing the case of the extension changes neither where the path is cut.\<close>

lemma splitext_case_variant:
  assumes s: "splitext p = (r, e)" and l: "lower e' = lower e"
  shows "splitext (r @ e') = (r, e')"
proof (cases "e = []")
  case True
  with l have "e' = []" by simp
  with True s splitext_concat [OF s] show ?thesis by simp
next
  case False
  from splitext_ext_shape [OF s False] obtain t where
    e: "e = CHR ''.'' # t" and t: "CHR ''.'' \<notin> set t" "CHR ''/'' \<notin> set t"
    and c: "\<exists>c \<in> set (last_component r). c \<noteq> CHR ''.''" by blast
  from l e have "lower e' = CHR ''.'' # lower t" by (simp add: lower_def)
  then obtain t' where e': "e' = CHR ''.'' # t'" and lt: "lower t' = lower t"
    by (auto simp: lower_Cons_dot)
  have "CHR ''.'' \<notin> set t'" "CHR ''/'' \<notin> set t'"
    using t dot_in_lower [of t'] slash_in_lower [of t'] by (simp_all add: lt)
  then show ?thesis unfolding e' using c by (rule splitext_ext)
qed

text \<open>
  C10. Classification does not depend on the case of the extension: when \<open>ext\<close> is
  the extension of \<open>p\<close> and \<open>ext'\<close> differs from it only in the case of its
  letters, the path with \<open>ext'\<close> in place of \<open>ext\<close> is classified as \<open>p\<close> is, by
  \<open>is_video_file\<close> and \<open>is_audio_file\<close> of \<open>core/utils.py\<close> and by
  \<open>SpeechToText.is_video_file\<close>.
\<close>

theorem C10_extension_case_insensitive:
  assumes "splitext p = (base, ext)" and "lower ext' = lower ext"
  shows "is_video_file (base @ ext') = is_video_file p
       \<and> is_audio_file (base @ ext') = is_audio_file p
       \<and> SpeechToText_is_video_file (base @ ext') = SpeechToText_is_video_file p"
  using assms splitext_case_variant [OF assms]
  by (simp add: is_video_file_def is_audio_file_def SpeechToText_is_video_file_def)

theorem C10_extension_case_insensitive_witness:
  "splitext ''/videos/clip.mp4'' = (''/videos/clip'', ''.mp4'') \<and> lower ''.MP4'' = lower ''.mp4''
   \<and> is_video_file ''/videos/clip.MP4'' \<and> is_video_file ''/videos/clip.mp4''
   \<and> \<not> is_audio_file ''/videos/clip.MP4''
   \<and> SpeechToText_is_video_file ''/videos/clip.MP4''"
proof -
  have s: "splitext ''/videos/clip.mp4'' = (''/videos/clip'', ''.mp4'')" by code_simp
  have l: "lower ''.MP4'' = lower ''.mp4''" by code_simp
  have v: "is_video_file ''/videos/clip.mp4''" by code_simp
  have a: "\<not> is_audio_file ''/videos/clip.mp4''" by code_simp
  have w: "SpeechToText_is_video_file ''/videos/clip.mp4''" by code_simp
  from C10_extension_case_insensitive [OF s l] s l v a w show ?thesis by simp
qed

lemma splitext_lower_ext:
  assumes "lower e = CHR ''.'' # u" and "CHR ''.'' \<notin> set u" and "CHR ''/'' \<notin> set u"
    and "\<exists>c \<in> set (last_component base). c \<noteq> CHR ''.''"
  shows "splitext (base @ e) = (base, e)"
proof -
  from assms(1) obtain t where e: "e = CHR ''.'' # t" and t: "lower t = u"
    by (auto simp: lower_Cons_dot)
  have "CHR ''.'' \<notin> set t" "CHR ''/'' \<notin> set t"
    using assms(2,3) dot_in_lower [of t] slash_in_lower [of t] by (simp_all add: t)
  then show ?thesis unfolding e using assms(4) by (rule splitext_ext)
qed

text \<open>
  \<open>is_video_file\<close> and \<open>is_audio_file\<close> of \<open>core/utils.py\<close> classify by the two
  sets: a path made of a base, whose last component has a character other than a dot,
  and of one of the seven video extensions, in any case, is a video and not an audio
  file; with one of the five audio extensions it is an audio and not a video file; a
  path whose extension is in neither set is neither.
\<close>

lemma is_video_file_ext:
  assumes "lower e \<in> set SUPPORTED_VIDEO_FORMATS"
    and "\<exists>c \<in> set (last_component base). c \<noteq> CHR ''.''"
  shows "is_video_file (base @ e) \<and> \<not> is_audio_file (base @ e)"
proof -
  from assms(1) obtain u where "lower e = CHR ''.'' # u" "CHR ''.'' \<notin> set u" "CHR ''/'' \<notin> set u"
    by (auto simp: SUPPORTED_VIDEO_FORMATS_def)
  then have s: "splitext (base @ e) = (base, e)" using assms(2) by (rule splitext_lower_ext)
  have "lower e \<notin> set [''.wav'', ''.mp3'', ''.flac'', ''.ogg'', ''.m4a'']"
    using assms(1) by (auto simp: SUPPORTED_VIDEO_FORMATS_def)
  then show ?thesis using s assms(1) by (simp add: is_video_file_def is_audio_file_def)
qed

lemma is_audio_file_ext:
  assumes "lower e \<in> set [''.wav'', ''.mp3'', ''.flac'', ''.ogg'', ''.m4a'']"
    and "\<exists>c \<in> set (last_component base). c \<noteq> CHR ''.''"
  shows "is_audio_file (base @ e) \<and> \<not> is_video_file (base @ e)"
proof -
  from assms(1) obtain u where "lower e = CHR ''.'' # u" "CHR ''.'' \<notin> set u" "CHR ''/'' \<notin> set u"
    by auto
  then have s: "splitext (base @ e) = (base, e)" using assms(2) by (rule splitext_lower_ext)
  have "lower e \<notin> set SUPPORTED_VIDEO_FORMATS"
    using assms(1) by (auto simp: SUPPORTED_VIDEO_FORMATS_def)
  then show ?thesis using s assms(1) by (simp add: is_video_file_def is_audio_file_def)
qed

lemma unsupported_ext:
  assumes "lower (snd (splitext p)) \<notin> set SUPPORTED_VIDEO_FORMATS"
    and "lower (snd (splitext p)) \<notin> set [''.wav'', ''.mp3'', ''.flac'', ''.ogg'', ''.m4a'']"
  shows "\<not> is_video_file p \<and> \<not> is_audio_file p"
  using assms by (simp add: is_video_file_def is_audio_file_def)

lemma SUPPORTED_VIDEO_FORMATS_set:
  "set SUPPORTED_VIDEO_FORMATS = {''.mp4'', ''.avi'', ''.mov'', ''.mkv'', ''.flv'', ''.wmv'', ''.webm''}"
  "set engine_SUPPORTED_VIDEO_FORMATS = set SUPPORTED_VIDEO_FORMATS"
  by (auto simp: SUPPORTED_VIDEO_FORMATS_def engine_SUPPORTED_VIDEO_FORMATS_def)

text \<open>
  C5. \<open>clip.webm\<close> is a video for \<open>is_video_file\<close> of \<open>core/utils.py\<close> and for
  \<open>STTEngine._is_video_file\<close>, and it is not one for \<open>SpeechToText.is_video_file\<close>,
  whose list has six extensions and lacks \<open>.webm\<close>.
\<close>

theorem C5_app_misses_webm:
  "is_video_file ''clip.webm'' \<and> \<not> is_audio_file ''clip.webm''
   \<and> STTEngine_is_video_file ''clip.webm''
   \<and> \<not> SpeechToText_is_video_file ''clip.webm''"
  by code_simp

section \<open>The temporary path of an extraction\<close>

text \<open>The stem of a path has no separator.\<close>

lemma split_on_no_sep: "x \<in> set (split_on c s) \<Longrightarrow> c \<notin> set x"
  by (induction s arbitrary: x) (auto split: if_splits list.splits)

lemma path_name_no_slash: "CHR ''/'' \<notin> set (path_name p)"
proof -
  let ?parts = "filter (\<lambda>x. x \<noteq> [] \<and> x \<noteq> ''.'') (split_on CHR ''/'' p)"
  show ?thesis
  proof (cases "?parts = []")
    case True
    then show ?thesis by (simp add: path_name_def)
  next
    case False
    then have "last ?parts \<in> set ?parts" by (rule last_in_set)
    then have "last ?parts \<in> set (split_on CHR ''/'' p)" by simp
    then show ?thesis using False split_on_no_sep by (simp add: path_name_def)
  qed
qed

lemma path_stem_no_slash: "CHR ''/'' \<notin> set (path_stem p)"
  using path_name_no_slash [of p] by (auto simp: path_stem_def Let_def dest: in_set_takeD)

lemma os_path_join_stem:
  assumes "CHR ''/'' \<notin> set a"
  shows "os_path_join d (a @ ''_audio.wav'') =
           (if d = [] \<or> last d = CHR ''/'' then d else d @ ''/'') @ a @ ''_audio.wav''"
  using assms by (cases a) (auto simp: os_path_join_def)

text \<open>
  The temporary path is the temporary directory, a separator when the directory does
  not end with one, the stem and \<open>_audio.wav\<close>: two videos get the same temporary
  path exactly when their stems are equal.
\<close>

lemma STTEngine_audio_file_eq_iff:
  "STTEngine_audio_file ev p = STTEngine_audio_file ev q \<longleftrightarrow> path_stem p = path_stem q"
  by (simp add: STTEngine_audio_file_def os_path_join_stem path_stem_no_slash)

lemma ntpath_basename_no_slash: "CHR ''/'' \<notin> set (ntpath_basename p)"
proof
  assume "CHR ''/'' \<in> set (ntpath_basename p)"
  then have "CHR ''/'' \<in> set (takeWhile (\<lambda>c. c \<noteq> bslash \<and> c \<noteq> CHR ''/'')
                                 (rev (snd (ntpath_splitdrive p))))"
    by (simp add: ntpath_basename_def)
  then show False by (auto dest: set_takeWhileD)
qed

lemma splitext_root_no_slash:
  assumes "CHR ''/'' \<notin> set b"
  shows "CHR ''/'' \<notin> set (fst (splitext b))"
proof -
  obtain r e where s: "splitext b = (r, e)" by (cases "splitext b")
  from splitext_concat [OF s] assms show ?thesis using s by simp
qed

lemma SpeechToText_audio_file_eq_iff:
  "SpeechToText_audio_file ev p = SpeechToText_audio_file ev q
     \<longleftrightarrow> fst (splitext (ntpath_basename p)) = fst (splitext (ntpath_basename q))"
  by (simp add: SpeechToText_audio_file_def os_path_join_stem splitext_root_no_slash
      ntpath_basename_no_slash)

text \<open>
  C6, as stated, fails: the distinct videos \<open>/a/clip.mp4\<close> and \<open>/b/clip.mp4\<close> are
  both extracted to \<open>/tmp/clip_audio.wav\<close>, by \<open>STTEngine\<close> and by
  \<open>SpeechToText\<close>.
\<close>

theorem C6_same_stem_same_temporary:
  "''/a/clip.mp4'' \<noteq> ''/b/clip.mp4''
   \<and> STTEngine_is_video_file ''/a/clip.mp4'' \<and> STTEngine_is_video_file ''/b/clip.mp4''
   \<and> STTEngine_audio_file stub_env ''/a/clip.mp4'' = ''/tmp/clip_audio.wav''
   \<and> STTEngine_audio_file stub_env ''/b/clip.mp4'' = ''/tmp/clip_audio.wav''
   \<and> SpeechToText_is_video_file ''/a/clip.mp4'' \<and> SpeechToText_is_video_file ''/b/clip.mp4''
   \<and> SpeechToText_audio_file stub_env ''/a/clip.mp4'' = ''/tmp/clip_audio.wav''
   \<and> SpeechToText_audio_file stub_env ''/b/clip.mp4'' = ''/tmp/clip_audio.wav''"
  by code_simp

text \<open>
  C6, amended. Two video paths whose file-name stems differ are extracted to distinct
  temporary paths, where the stem is the one each implementation computes:
  \<open>Path(video_path).stem\<close> in \<open>STTEngine._extract_audio_from_video\<close>, and
  \<open>os.path.splitext(ntpath.basename(video_file))[0]\<close> in
  \<open>SpeechToText.extract_audio_from_video\<close>.
\<close>

theorem C6_distinct_stems_distinct_temporaries:
  "(path_stem p \<noteq> path_stem q
      \<longrightarrow> STTEngine_audio_file ev p \<noteq> STTEngine_audio_file ev q)
   \<and> (fst (splitext (ntpath_basename p)) \<noteq> fst (splitext (ntpath_basename q))
      \<longrightarrow> SpeechToText_audio_file ev p \<noteq> SpeechToText_audio_file ev q)"
  by (simp add: STTEngine_audio_file_eq_iff SpeechToText_audio_file_eq_iff)

theorem C6_distinct_stems_distinct_temporaries_witness:
  "path_stem ''/a/clip.mp4'' \<noteq> path_stem ''/a/talk.mp4''
   \<and> STTEngine_audio_file stub_env ''/a/clip.mp4''
       \<noteq> STTEngine_audio_file stub_env ''/a/talk.mp4''
   \<and> fst (splitext (ntpath_basename ''/a/clip.mp4''))
       \<noteq> fst (splitext (ntpath_basename ''/a/talk.mp4''))
   \<and> SpeechToText_audio_file stub_env ''/a/clip.mp4''
       \<noteq> SpeechToText_audio_file stub_env ''/a/talk.mp4''"
proof -
  have h: "path_stem ''/a/clip.mp4'' \<noteq> path_stem ''/a/talk.mp4''" by code_simp
  have g: "fst (splitext (ntpath_basename ''/a/clip.mp4''))
             \<noteq> fst (splitext (ntpath_basename ''/a/talk.mp4''))" by code_simp
  from C6_distinct_stems_distinct_temporaries [of "''/a/clip.mp4''" "''/a/talk.mp4''" stub_env]
    h g
  show ?thesis by simp
qed

section \<open>Normalisation of a normalised buffer\<close>

lemma np_max_abs_nonneg: "a \<noteq> [] \<Longrightarrow> 0 \<le> np_max_abs a"
proof -
  assume "a \<noteq> []"
  then obtain x where "x \<in> set a" by (cases a) auto
  then have "\<bar>x\<bar> \<le> Max (abs ` set a)" by (intro Max_ge) auto
  then show ?thesis unfolding np_max_abs_def by linarith
qed

lemma np_max_abs_zero: "\<forall>x \<in> set a. x = 0 \<Longrightarrow> a \<noteq> [] \<Longrightarrow> np_max_abs a = 0"
proof -
  assume z: "\<forall>x \<in> set a. x = 0" and ne: "a \<noteq> []"
  then have "abs ` set a = {0}" by (cases a) auto
  then show ?thesis by (simp add: np_max_abs_def)
qed



lemma normalize_volume_silent:
  "a \<noteq> [] \<Longrightarrow> np_max_abs a = 0 \<Longrightarrow> normalize_volume a = Inr a"
  by (simp add: normalize_volume_def)





section \<open>Normalisation of a silent buffer\<close>

text \<open>The interpolation of an all-zero buffer is zero at every point.\<close>

lemma np_interp_at_zero:
  assumes "\<forall>x \<in> set fp. x = 0" and "fp \<noteq> []"
  shows "np_interp_at fp x = 0"
proof -
  have nth: "fp ! i = 0" if "i < length fp" for i using assms(1) that by simp
  have len: "0 < length fp" using assms(2) by simp
  show ?thesis
  proof (cases "x \<le> 0")
    case True
    then show ?thesis using nth [of 0] len by (simp add: np_interp_at_def)
  next
    case False
    show ?thesis
    proof (cases "real (length fp - 1) \<le> x")
      case True
      have "np_interp_at fp x = fp ! (length fp - 1)"
        unfolding np_interp_at_def Let_def using False True by (simp only: if_False if_True)
      then show ?thesis using nth [of "length fp - 1"] len by simp
    next
      case b: False
      then have "x < real (length fp - 1)" by simp
      then have "\<lfloor>x\<rfloor> < int (length fp - 1)" by (simp add: floor_less_iff)
      moreover have "0 \<le> \<lfloor>x\<rfloor>" using False by simp
      ultimately have j: "nat \<lfloor>x\<rfloor> + 1 < length fp" by linarith
      have "np_interp_at fp x =
              (fp ! (nat \<lfloor>x\<rfloor> + 1) - fp ! nat \<lfloor>x\<rfloor>) * (x - real (nat \<lfloor>x\<rfloor>)) + fp ! nat \<lfloor>x\<rfloor>"
        unfolding np_interp_at_def Let_def using False b by (simp only: if_False)
      then show ?thesis using j nth [of "nat \<lfloor>x\<rfloor>"] nth [of "nat \<lfloor>x\<rfloor> + 1"]
        by simp
    qed
  qed
qed

text \<open>
  C8, as stated, fails: at sample rate 0 the division \<open>16000 / sample_rate\<close> of the
  resampling, which nothing guards, raises \<open>ZeroDivisionError\<close> on the all-zero buffer
  \<open>[0, 0, 0]\<close>; and on the empty buffer, at 16 kHz, \<open>np.max\<close> raises \<open>ValueError\<close>
  and no buffer is returned.
\<close>

theorem C8_zero_rate_raises_division_error:
  "normalize_audio exact_alen [0, 0, 0] 0 = Inl ZeroDivisionError
   \<and> isl (normalize_audio exact_alen [] 16000)"
  by (simp add: normalize_audio_def resample_def normalize_volume_def)

text \<open>
  C8, amended. For a buffer that is not empty and all zero, at any sample rate other
  than 0, \<open>normalize_audio\<close> raises nothing and returns an all-zero buffer: the
  resampled buffer as it is, the division by the peak being skipped; at 16 kHz that is
  the input, unchanged. (When the rate is not 16 kHz, the resampled buffer has as many
  samples as \<open>np.arange\<close> has points, which is at least one.)
\<close>

theorem C8_zero_buffer:
  assumes "audio \<noteq> []" and "\<forall>x \<in> set audio. x = 0" and "sr \<noteq> 0"
    and "sr \<noteq> 16000 \<longrightarrow>
           0 < alen (real (length audio) * (16000 / real_of_int sr)) (16000 / real_of_int sr)"
  shows "\<exists>ys. normalize_audio alen audio sr = Inr ys \<and> resample alen audio sr = Inr ys
           \<and> ys \<noteq> [] \<and> (\<forall>y \<in> set ys. y = 0) \<and> (sr = 16000 \<longrightarrow> ys = audio)"
proof (cases "sr = 16000")
  case True
  then show ?thesis using assms(1,2) np_max_abs_zero [OF assms(2,1)]
    by (simp add: normalize_audio_def resample_def normalize_volume_def)
next
  case False
  define ratio where "ratio = 16000 / real_of_int sr"
  define ys where "ys = map (np_interp_at audio) (np_arange alen (real (length audio) * ratio) ratio)"
  have r: "resample alen audio sr = Inr ys"
    using False assms(1,3) by (simp add: resample_def ys_def ratio_def Let_def)
  have ne: "ys \<noteq> []" using assms(4) False by (simp add: ys_def np_arange_def ratio_def)
  have z: "\<forall>y \<in> set ys. y = 0"
    using np_interp_at_zero [OF assms(2,1)] by (simp add: ys_def)
  have "normalize_volume ys = Inr ys"
    using ne np_max_abs_zero [OF z ne] by (simp add: normalize_volume_def)
  then show ?thesis using r ne z False by (simp add: normalize_audio_def)
qed

theorem C8_zero_buffer_witness:
  "[0, 0, 0] \<noteq> ([] :: real list) \<and> set [0, 0, 0 :: real] = {0} \<and> (8000 :: int) \<noteq> 0
   \<and> 0 < exact_alen (real (length [0, 0, 0 :: real]) * (16000 / real_of_int 8000)) (16000 / real_of_int 8000)
   \<and> normalize_audio exact_alen [0, 0, 0] 8000 = Inr [0, 0, 0]"
proof -
  have a: "0 < exact_alen (real (length [0, 0, 0 :: real]) * (16000 / real_of_int 8000)) (16000 / real_of_int 8000)"
    by (simp add: exact_alen_def)
  have b: "(8000 :: int) \<noteq> 16000 \<longrightarrow> 0 < exact_alen (real (length [0, 0, 0 :: real]) * (16000 / real_of_int 8000)) (16000 / real_of_int 8000)"
    using a by simp
  have l: "length (np_arange exact_alen (real (length [0, 0, 0 :: real]) * (16000 / real_of_int 8000)) (16000 / real_of_int 8000)) = 3"
    by (simp add: np_arange_def exact_alen_def)
  from C8_zero_buffer [of "[0, 0, 0]" 8000 exact_alen, OF _ _ _ b]
  obtain ys where n: "normalize_audio exact_alen [0, 0, 0] 8000 = Inr ys"
    and r: "resample exact_alen [0, 0, 0] 8000 = Inr ys" and z: "\<forall>y \<in> set ys. y = 0"
    by auto
  from r l have "length ys = 3" by (auto simp: resample_def Let_def)
  with z have "ys = [0, 0, 0]"
    by (cases ys; cases "tl ys"; cases "tl (tl ys)") auto
  with n a show ?thesis by simp
qed

section \<open>Conversion of a video to audio\<close>

text \<open>
  Once the temporary file has been created, the function returns a pair whatever the
  conversion does: \<open>("", False)\<close> when ffmpeg is unavailable, when the conversion
  raises (the temporary file is then removed), and when the output is missing or empty.
\<close>

lemma convert_returns:
  assumes "check_ffmpeg_available ev = Inr b" and "named_temporary_file ev = Inr audio_path"
  shows "\<exists>r. fst (convert_video_to_audio ev video_path disk) = Inr r"
  using assms
  by (cases b; cases "ffmpeg_convert ev video_path audio_path (disk(audio_path \<mapsto> 0))")
     (auto simp: convert_video_to_audio_def conv_handler_def split: option.splits)

lemma convert_unavailable:
  "check_ffmpeg_available ev = Inr False \<Longrightarrow>
   convert_video_to_audio ev video_path disk = (Inr ([], False), disk)"
  by (simp add: convert_video_to_audio_def)

lemma convert_subprocess_fails:
  assumes "check_ffmpeg_available ev = Inr True" and "named_temporary_file ev = Inr audio_path"
    and "ffmpeg_convert ev video_path audio_path (disk(audio_path \<mapsto> 0)) = (Some e, disk')"
  shows "fst (convert_video_to_audio ev video_path disk) = Inr ([], False)
       \<and> snd (convert_video_to_audio ev video_path disk) audio_path = None"
  using assms by (simp add: convert_video_to_audio_def conv_handler_def)

lemma convert_output_missing_or_empty:
  assumes "check_ffmpeg_available ev = Inr True" and "named_temporary_file ev = Inr audio_path"
    and "ffmpeg_convert ev video_path audio_path (disk(audio_path \<mapsto> 0)) = (None, disk')"
    and "disk' audio_path = None \<or> disk' audio_path = Some 0"
  shows "convert_video_to_audio ev video_path disk = (Inr ([], False), disk')"
  using assms by (auto simp: convert_video_to_audio_def)

text \<open>
  C9. When \<open>NamedTemporaryFile\<close> raises, the handler reads \<open>audio_path\<close>, which was
  never assigned, and \<open>convert_video_to_audio\<close> propagates \<open>UnboundLocalError\<close>
  instead of returning \<open>("", False)\<close>. When \<open>ffmpeg -version\<close> raises an \<open>OSError\<close>
  other than \<open>FileNotFoundError\<close>, that exception propagates too.
\<close>

theorem C9_unbound_audio_path_propagates:
  "convert_video_to_audio no_tempdir_env ''/videos/clip.mp4'' Map.empty
     = (Inl (UnboundLocalError ''audio_path''), Map.empty)
   \<and> fst (convert_video_to_audio no_exec_env ''/videos/clip.mp4'' Map.empty)
     = Inl (OSError ''Permission denied'')"
  by (simp add: convert_video_to_audio_def check_ffmpeg_available_def conv_handler_def
      no_tempdir_env_def no_exec_env_def)

end
